theory Spec2Isabelle
  imports Main
begin

section \<open>Python values, enumerations and exceptions\<close>

text \<open>
  The module \<^verbatim>\<open>django/db/models/fields/enum_field.py\<close> defines the model field
  \<^verbatim>\<open>EnumField\<close> and the form field \<^verbatim>\<open>EnumChoiceField\<close>. Both work on Python
  values of three shapes: \<^verbatim>\<open>None\<close>, a primitive (an integer, a boolean or a string) and
  a member of some \<^verbatim>\<open>enum.Enum\<close> subclass.
\<close>

datatype prim = PInt int | PBool bool | PStr string

text \<open>
  An \<^verbatim>\<open>enum.Enum\<close> subclass: the identity of the class object (two classes with the
  same name and the same members are still two classes), its name and its members (name
  and value) in declaration order. A member knows its class, its name and its value.
\<close>

record enum_class =
  enum_id :: nat
  enum_name :: string
  enum_members :: "(string \<times> prim) list"

datatype member = Member (member_cls: enum_class) (member_name: string) (member_value: prim)

datatype pyval = PyNone | Prim prim | Enum member

text \<open>
  The exceptions the module raises or lets through. The three validation errors carry
  what \<^verbatim>\<open>ValidationError(message, code=None, params=None)\<close> stores: the message, the
  code, and the entry \<^verbatim>\<open>params['value']\<close> when \<^verbatim>\<open>params\<close> is given.
  \<^verbatim>\<open>InvalidEnumValueError\<close> and \<^verbatim>\<open>InvalidEnumTypeError\<close> are the two subclasses
  the module declares.
\<close>

datatype exn =
    ValidationError string "string option" "pyval option"
  | InvalidEnumValueError string "string option" "pyval option"
  | InvalidEnumTypeError string "string option" "pyval option"
  | ValueError string
  | ImportError string
  | AttributeError string
  | NameError string
  | KeyError string
  | TypeError string

subsection \<open>Equality of primitives\<close>

text \<open>
  Python's \<^verbatim>\<open>==\<close> on the primitives: \<^verbatim>\<open>bool\<close> is a subclass of \<^verbatim>\<open>int\<close>, so
  \<^verbatim>\<open>True == 1\<close> and \<^verbatim>\<open>False == 0\<close>; a string never equals a number.
\<close>

fun prim_num :: "prim \<Rightarrow> int option" where
  "prim_num (PInt i) = Some i"
| "prim_num (PBool b) = Some (if b then 1 else 0)"
| "prim_num (PStr s) = None"

fun py_eq :: "prim \<Rightarrow> prim \<Rightarrow> bool" where
  "py_eq (PStr s) (PStr t) = (s = t)"
| "py_eq (PStr s) q = False"
| "py_eq p (PStr t) = False"
| "py_eq p q = (prim_num p = prim_num q)"

text \<open>
  \<^verbatim>\<open>==\<close> on all values: \<^verbatim>\<open>None\<close> equals only itself, a member of a plain
  \<^verbatim>\<open>Enum\<close> equals only itself.
\<close>

fun py_eq_val :: "pyval \<Rightarrow> pyval \<Rightarrow> bool" where
  "py_eq_val PyNone PyNone = True"
| "py_eq_val (Prim p) (Prim q) = py_eq p q"
| "py_eq_val (Enum m) (Enum m') = (m = m')"
| "py_eq_val v w = False"

subsection \<open>\<^verbatim>\<open>repr\<close> and \<^verbatim>\<open>%\<close> formatting\<close>

definition digit_char :: "nat \<Rightarrow> char" where
  "digit_char n = ''0123456789'' ! n"

fun nat_str :: "nat \<Rightarrow> string" where
  "nat_str n = (if n < 10 then [digit_char n] else nat_str (n div 10) @ [digit_char (n mod 10)])"

declare nat_str.simps [simp del]

definition int_str :: "int \<Rightarrow> string" where
  "int_str i = (if i < 0 then CHR ''-'' # nat_str (nat (- i)) else nat_str (nat i))"

text \<open>
  \<^verbatim>\<open>repr\<close> of a string of printable ASCII characters (Python 3): single quotes, unless
  the string has a single quote and no double quote; the quote and the backslash are escaped.
\<close>

definition repr_str :: "string \<Rightarrow> string" where
  "repr_str s =
     (let q = (if CHR 0x27 \<in> set s \<and> CHR 0x22 \<notin> set s then CHR 0x22 else CHR 0x27)
      in q # concat (map (\<lambda>c. if c = q \<or> c = CHR 0x5C then [CHR 0x5C, c] else [c]) s) @ [q])"

fun repr_prim :: "prim \<Rightarrow> string" where
  "repr_prim (PInt i) = int_str i"
| "repr_prim (PBool b) = (if b then ''True'' else ''False'')"
| "repr_prim (PStr s) = repr_str s"

text \<open>A name between single quotes, as Python's messages write it.\<close>

definition quoted :: "string \<Rightarrow> string" where
  "quoted s = CHR 0x27 # s @ [CHR 0x27]"

text \<open>\<^verbatim>\<open>repr\<close> of an \<^verbatim>\<open>Enum\<close> subclass is \<^verbatim>\<open><enum 'Color'>\<close>.\<close>

definition repr_enum_class :: "enum_class \<Rightarrow> string" where
  "repr_enum_class E = ''<enum '' @ quoted (enum_name E) @ ''>''"

text \<open>\<^verbatim>\<open>repr\<close> of a member is \<^verbatim>\<open><Color.RED: 1>\<close>.\<close>

fun py_repr :: "pyval \<Rightarrow> string" where
  "py_repr PyNone = ''None''"
| "py_repr (Prim p) = repr_prim p"
| "py_repr (Enum m) =
     ''<'' @ enum_name (member_cls m) @ ''.'' @ member_name m @ '': '' @ repr_prim (member_value m) @ ''>''"

text \<open>
  \<^verbatim>\<open>template % args\<close> for templates whose only directive is \<^verbatim>\<open>%r\<close>, the arguments
  given by their \<^verbatim>\<open>repr\<close>. \<open>None\<close> when Python raises (too few or too many
  arguments, a lone \<^verbatim>\<open>%\<close>) and for any other directive.
\<close>

fun py_format :: "string \<Rightarrow> string list \<Rightarrow> string option" where
  "py_format [] args = (if args = [] then Some [] else None)"
| "py_format [c] args = (if c \<noteq> CHR ''%'' \<and> args = [] then Some [c] else None)"
| "py_format (c # d # rest) args =
     (if c = CHR ''%'' then
        (if d = CHR ''r'' then
           (case args of [] \<Rightarrow> None | a # as \<Rightarrow> map_option ((@) a) (py_format rest as))
         else None)
      else map_option ((#) c) (py_format (d # rest) args))"

text \<open>\<^verbatim>\<open>needle in haystack\<close> on strings.\<close>

fun contains :: "string \<Rightarrow> string \<Rightarrow> bool" where
  "contains needle [] = (needle = [])"
| "contains needle (c # cs) = (take (length needle) (c # cs) = needle \<or> contains needle cs)"

subsection \<open>Calling and iterating an \<^verbatim>\<open>Enum\<close> class\<close>

text \<open>
  Iterating the class yields its members in declaration order.
\<close>

definition members_of :: "enum_class \<Rightarrow> member list" where
  "members_of E = map (\<lambda>(n, v). Member E n v) (enum_members E)"

text \<open>
  \<^verbatim>\<open>EnumClass(value)\<close>, the lookup by value of the \<^verbatim>\<open>enum\<close> library: a member of the
  class itself is returned as it is; otherwise the value is looked up among the members'
  values (a dictionary lookup, so by \<^verbatim>\<open>==\<close>), and a value that is none of them raises
  \<^verbatim>\<open>ValueError("<repr of value> is not a valid <class name>")\<close>.
\<close>

definition enum_call :: "enum_class \<Rightarrow> pyval \<Rightarrow> exn + member" where
  "enum_call E v =
     (let not_valid = Inl (ValueError (py_repr v @ '' is not a valid '' @ enum_name E)) in
      case v of
        Enum m \<Rightarrow> if member_cls m = E then Inr m else not_valid
      | PyNone \<Rightarrow> not_valid
      | Prim p \<Rightarrow>
          (case find (\<lambda>(n, x). py_eq x p) (enum_members E) of
             Some (n, x) \<Rightarrow> Inr (Member E n x)
           | None \<Rightarrow> not_valid))"



section \<open>\<^verbatim>\<open>EnumField\<close>\<close>

text \<open>
  A \<^verbatim>\<open>Field\<close> subclass given as \<^verbatim>\<open>field_class\<close>: its name and its
  \<^verbatim>\<open>default_error_messages\<close>.
\<close>

record field_class =
  fc_name :: string
  fc_default_error_messages :: "(string \<times> string) list"

text \<open>A class object handed to the constructor.\<close>

datatype pyclass = EnumSubclass enum_class | FieldSubclass field_class | OtherClass string

text \<open>
  The \<^verbatim>\<open>choices\<close> keyword: a list, a tuple, a set (its items in iteration order), or any
  other object, such as a generator, a dict or a frozenset, with the items it would yield.
\<close>

datatype choices_arg =
    PyList "pyval list" | PyTuple "pyval list" | PySet "pyval list" | PyOther "pyval list"

fun items :: "choices_arg \<Rightarrow> pyval list" where
  "items (PyList xs) = xs"
| "items (PyTuple xs) = xs"
| "items (PySet xs) = xs"
| "items (PyOther xs) = xs"

text \<open>\<^verbatim>\<open>isinstance(choices, (list, tuple, set))\<close>\<close>

fun is_list_tuple_set :: "choices_arg \<Rightarrow> bool" where
  "is_list_tuple_set (PyOther xs) = False"
| "is_list_tuple_set c = True"

text \<open>
  The keyword arguments of the constructor that the module reads or hands on:
  \<^verbatim>\<open>choices\<close> (\<open>None\<close> when absent or \<^verbatim>\<open>None\<close>), \<^verbatim>\<open>blank\<close> and \<^verbatim>\<open>null\<close>.
\<close>

record kwargs =
  kw_choices :: "choices_arg option"
  kw_blank :: bool
  kw_null :: bool

text \<open>
  A constructed field. The base constructor \<^verbatim>\<open>Field.__init__\<close> is outside this module;
  the record keeps what \<^verbatim>\<open>EnumField.__init__\<close> sets and what it hands to the base
  constructor: \<open>choices\<close> is the \<^verbatim>\<open>choices\<close> argument of the \<^verbatim>\<open>super\<close> call
  (\<open>None\<close> for Python's \<^verbatim>\<open>None\<close>), \<open>null\<close> the \<^verbatim>\<open>null\<close> keyword, and
  \<open>field_repr\<close> is \<^verbatim>\<open>repr(self)\<close>, which the base class computes.
\<close>

record EnumField =
  enum_class :: enum_class
  field_class :: field_class
  default_error_messages :: "string \<rightharpoonup> string"
  choices :: "(prim \<times> member) list option"
  null :: bool
  field_repr :: string

text \<open>The class attribute \<^verbatim>\<open>EnumField.default_error_messages\<close>.\<close>

definition EnumField_default_error_messages :: "(string \<times> string) list" where
  "EnumField_default_error_messages =
     [(''invalid_value'', ''%r is not a valid value for %r enum''),
      (''invalid_type'', ''%r is configured for %r enum but received %r'')]"

subsection \<open>Construction\<close>

text \<open>
  \<^verbatim>\<open>validate_enum_class\<close>: \<open>enum_module\<close> tells whether \<^verbatim>\<open>import enum\<close> succeeded.
\<close>

definition validate_enum_class :: "bool \<Rightarrow> pyclass \<Rightarrow> exn + enum_class" where
  "validate_enum_class enum_module cls =
     (if \<not> enum_module then Inl (ImportError ''enum34 package is required for EnumField'')
      else case cls of
        EnumSubclass E \<Rightarrow> Inr E
      | other \<Rightarrow> Inl (ValueError ''enum_class argument must be subclass of enum.Enum''))"

definition validate_field_class :: "pyclass \<Rightarrow> exn + field_class" where
  "validate_field_class cls =
     (case cls of
        FieldSubclass F \<Rightarrow> Inr F
      | other \<Rightarrow> Inl (ValueError ''field_class argument must be subclass of Field''))"

text \<open>\<^verbatim>\<open>choice_option = lambda m: (m.value, m)\<close>\<close>

definition choice_option :: "member \<Rightarrow> prim \<times> member" where
  "choice_option m = (member_value m, m)"

text \<open>
  \<^verbatim>\<open>map(self.enum_class, choices)\<close> as \<^verbatim>\<open>list\<close> consumes it: the members in the
  order of the items, or the exception of the first item the class rejects.
\<close>

fun map_enum_class :: "enum_class \<Rightarrow> pyval list \<Rightarrow> exn + member list" where
  "map_enum_class E [] = Inr []"
| "map_enum_class E (v # vs) =
     (case enum_call E v of
        Inl e \<Rightarrow> Inl e
      | Inr m \<Rightarrow> (case map_enum_class E vs of Inl e \<Rightarrow> Inl e | Inr ms \<Rightarrow> Inr (m # ms)))"

text \<open>
  \<^verbatim>\<open>prepare_choices\<close>: the result \<open>Inr None\<close> is Python's \<^verbatim>\<open>None\<close>, returned when
  \<^verbatim>\<open>choices\<close> is given and is not a list, tuple or set (the \<^verbatim>\<open>if\<close> has no
  \<^verbatim>\<open>else\<close>). The argument \<^verbatim>\<open>blank\<close> is not used.
\<close>

definition prepare_choices ::
  "enum_class \<Rightarrow> choices_arg option \<Rightarrow> bool \<Rightarrow> exn + (prim \<times> member) list option" where
  "prepare_choices E choices_kw blank =
     (case choices_kw of
        Some c \<Rightarrow>
          (if is_list_tuple_set c then
             (case map_enum_class E (items c) of
                Inl e \<Rightarrow> Inl e
              | Inr ms \<Rightarrow> Inr (Some (map choice_option ms)))
           else Inr None)
      | None \<Rightarrow> Inr (Some (map choice_option (members_of E))))"

text \<open>
  \<^verbatim>\<open>EnumField.__init__\<close>. \<^verbatim>\<open>dict(a.copy(), **b)\<close> is the dictionary \<open>a\<close> overridden
  by \<open>b\<close>. \<open>repr_self\<close> is the \<^verbatim>\<open>repr\<close> the base class gives the instance.
\<close>

definition EnumField_init ::
  "bool \<Rightarrow> pyclass \<Rightarrow> pyclass \<Rightarrow> kwargs \<Rightarrow> string \<Rightarrow> exn + EnumField" where
  "EnumField_init enum_module enum_cls field_cls kw repr_self =
     (case validate_enum_class enum_module enum_cls of
        Inl e \<Rightarrow> Inl e
      | Inr E \<Rightarrow>
     (case validate_field_class field_cls of
        Inl e \<Rightarrow> Inl e
      | Inr F \<Rightarrow>
     (let dem = map_of (fc_default_error_messages F) ++ map_of EnumField_default_error_messages in
      case prepare_choices E (kw_choices kw) (kw_blank kw) of
        Inl e \<Rightarrow> Inl e
      | Inr ch \<Rightarrow>
          Inr \<lparr> enum_class = E, field_class = F, default_error_messages = dem,
                choices = ch, null = kw_null kw, field_repr = repr_self \<rparr>)))"

subsection \<open>Validation\<close>

text \<open>
  The two \<^verbatim>\<open>raise\<close> statements of \<^verbatim>\<open>validate_value\<close> that build a message.
  \<^verbatim>\<open>self.default_error_messages[err_code]\<close> is a dictionary lookup (a missing key raises
  \<^verbatim>\<open>KeyError\<close>), and the template is filled in by \<^verbatim>\<open>%\<close> (the lazy translation of
  the template is taken as the template itself). In the first, \<open>e\<close> is the message of
  the \<^verbatim>\<open>ValueError\<close> caught, which is both \<^verbatim>\<open>str(e)\<close> and \<^verbatim>\<open>e.args[0]\<close>.
\<close>

definition raise_invalid_value :: "EnumField \<Rightarrow> pyval \<Rightarrow> string \<Rightarrow> exn" where
  "raise_invalid_value self value e =
     (let err_code = ''invalid_value'' in
      if contains ''is not a valid'' e then
        (case default_error_messages self err_code of
           None \<Rightarrow> KeyError err_code
         | Some template \<Rightarrow>
             (case py_format template [py_repr value, repr_enum_class (enum_class self)] of
                None \<Rightarrow> TypeError ''string formatting''
              | Some err_msg \<Rightarrow> InvalidEnumValueError err_msg (Some err_code) (Some value)))
      else InvalidEnumValueError e (Some err_code) (Some value))"

definition raise_invalid_type :: "EnumField \<Rightarrow> member \<Rightarrow> exn" where
  "raise_invalid_type self m =
     (let err_code = ''invalid_type'' in
      case default_error_messages self err_code of
        None \<Rightarrow> KeyError err_code
      | Some template \<Rightarrow>
          (case py_format template
                  [field_repr self, repr_enum_class (enum_class self), repr_enum_class (member_cls m)] of
             None \<Rightarrow> TypeError ''string formatting''
           | Some err_msg \<Rightarrow> InvalidEnumTypeError err_msg (Some err_code) (Some (Enum m))))"

text \<open>
  \<^verbatim>\<open>validate_value\<close>. \<^verbatim>\<open>isinstance(value, enum_module.Enum)\<close> holds of the members
  of any enumeration, \<^verbatim>\<open>isinstance(value, self.enum_class)\<close> of the members of the
  field's own. Only \<^verbatim>\<open>ValueError\<close> is caught around the call of the class.
\<close>

definition validate_value :: "EnumField \<Rightarrow> pyval \<Rightarrow> exn + pyval" where
  "validate_value self value =
     (case value of
        PyNone \<Rightarrow>
          (if \<not> null self then Inl (InvalidEnumValueError [] None None) else Inr value)
      | Prim p \<Rightarrow>
          (case enum_call (enum_class self) value of
             Inr m \<Rightarrow> Inr (Enum m)
           | Inl ex \<Rightarrow>
               (case ex of
                  ValueError e \<Rightarrow> Inl (raise_invalid_value self value e)
                | other \<Rightarrow> Inl other))
      | Enum m \<Rightarrow>
          (if member_cls m \<noteq> enum_class self then Inl (raise_invalid_type self m)
           else Inr value))"

subsection \<open>Storage and form entry points\<close>

text \<open>
  \<^verbatim>\<open>get_db_prep_value\<close>, \<^verbatim>\<open>from_db_value\<close> and \<^verbatim>\<open>to_python\<close> call
  \<^verbatim>\<open>self.validate_enum_value(value)\<close>. \<^verbatim>\<open>EnumField\<close> defines
  \<^verbatim>\<open>validate_value\<close> and no \<^verbatim>\<open>validate_enum_value\<close>, so the attribute lookup goes
  to the base class \<^verbatim>\<open>Field\<close>, which is outside this module: \<open>inherited\<close> is the
  method the base class has under that name, \<open>None\<close> when it has none, and then the
  lookup raises \<^verbatim>\<open>AttributeError\<close>.
\<close>

definition no_validate_enum_value :: exn where
  "no_validate_enum_value =
     AttributeError (quoted ''EnumField'' @ '' object has no attribute '' @ quoted ''validate_enum_value'')"

definition getattr_validate_enum_value ::
  "(EnumField \<Rightarrow> pyval \<Rightarrow> exn + pyval) option \<Rightarrow> EnumField \<Rightarrow> exn + (pyval \<Rightarrow> exn + pyval)" where
  "getattr_validate_enum_value inherited self =
     (case inherited of
        None \<Rightarrow> Inl no_validate_enum_value
      | Some f \<Rightarrow> Inr (f self))"

text \<open>
  \<^verbatim>\<open>get_db_prep_value\<close> returns what the validation returned (the arguments
  \<^verbatim>\<open>connection\<close> and \<^verbatim>\<open>prepared\<close> are not used).
\<close>

definition get_db_prep_value ::
  "(EnumField \<Rightarrow> pyval \<Rightarrow> exn + pyval) option \<Rightarrow> EnumField \<Rightarrow> pyval \<Rightarrow> exn + pyval" where
  "get_db_prep_value inherited self value =
     (case getattr_validate_enum_value inherited self of
        Inl e \<Rightarrow> Inl e
      | Inr validate_enum_value \<Rightarrow>
          (case validate_enum_value value of Inl e \<Rightarrow> Inl e | Inr value' \<Rightarrow> Inr value'))"

definition from_db_value ::
  "(EnumField \<Rightarrow> pyval \<Rightarrow> exn + pyval) option \<Rightarrow> EnumField \<Rightarrow> pyval \<Rightarrow> exn + pyval" where
  "from_db_value inherited self value =
     (case getattr_validate_enum_value inherited self of
        Inl e \<Rightarrow> Inl e
      | Inr validate_enum_value \<Rightarrow> validate_enum_value value)"

text \<open>\<^verbatim>\<open>EnumField.to_python\<close>: the \<^verbatim>\<open>except\<close> clause raises the error again.\<close>

definition to_python ::
  "(EnumField \<Rightarrow> pyval \<Rightarrow> exn + pyval) option \<Rightarrow> EnumField \<Rightarrow> pyval \<Rightarrow> exn + pyval" where
  "to_python inherited self value =
     (case getattr_validate_enum_value inherited self of
        Inl e \<Rightarrow> Inl e
      | Inr validate_enum_value \<Rightarrow>
          (case validate_enum_value value of Inl e \<Rightarrow> Inl e | Inr value' \<Rightarrow> Inr value'))"

section \<open>\<^verbatim>\<open>EnumChoiceField\<close>\<close>

text \<open>
  The form field: its enumeration and the \<^verbatim>\<open>empty_values\<close> of the base class
  \<^verbatim>\<open>forms.ChoiceField\<close>.
\<close>

record EnumChoiceField =
  cf_enum_class :: enum_class
  empty_values :: "pyval list"

definition prepare_value :: "pyval \<Rightarrow> pyval" where
  "prepare_value value = (case value of Enum m \<Rightarrow> Prim (member_value m) | other \<Rightarrow> value)"

text \<open>
  \<^verbatim>\<open>EnumChoiceField.to_python\<close>. \<open>super_to_python\<close> is the method of the base class
  \<^verbatim>\<open>forms.ChoiceField\<close>, outside this module. \<^verbatim>\<open>value in self.empty_values\<close>
  compares by \<^verbatim>\<open>==\<close>. The module does not import \<^verbatim>\<open>uuid\<close>, so evaluating
  \<^verbatim>\<open>uuid.UUID\<close> raises \<^verbatim>\<open>NameError\<close>, which the \<^verbatim>\<open>except ValueError\<close> clause
  does not catch; the \<^verbatim>\<open>ValidationError\<close> of that clause is never raised.
\<close>

definition uuid_not_defined :: exn where
  "uuid_not_defined = NameError (''name '' @ quoted ''uuid'' @ '' is not defined'')"

definition EnumChoiceField_to_python ::
  "(pyval \<Rightarrow> exn + pyval) \<Rightarrow> EnumChoiceField \<Rightarrow> pyval \<Rightarrow> exn + pyval" where
  "EnumChoiceField_to_python super_to_python self value =
     (case super_to_python value of
        Inl e \<Rightarrow> Inl e
      | Inr value' \<Rightarrow>
          (if list_ex (py_eq_val value') (empty_values self) then Inr PyNone
           else case value' of
             Enum m \<Rightarrow> Inr value'
           | other \<Rightarrow> Inl uuid_not_defined))"

section \<open>The enumeration \<^verbatim>\<open>Color\<close>\<close>

text \<open>
  \<^verbatim>\<open>class Color(Enum): RED = 1; GREEN = 2; BLUE = 3\<close>, a second enumeration
  \<^verbatim>\<open>Size\<close>, and fields over \<^verbatim>\<open>Color\<close>.
\<close>

definition Color :: enum_class where
  "Color = \<lparr> enum_id = 1, enum_name = ''Color'',
             enum_members = [(''RED'', PInt 1), (''GREEN'', PInt 2), (''BLUE'', PInt 3)] \<rparr>"

definition RED :: member where "RED = Member Color ''RED'' (PInt 1)"
definition GREEN :: member where "GREEN = Member Color ''GREEN'' (PInt 2)"
definition BLUE :: member where "BLUE = Member Color ''BLUE'' (PInt 3)"

definition Size :: enum_class where
  "Size = \<lparr> enum_id = 2, enum_name = ''Size'',
            enum_members = [(''SMALL'', PInt 1), (''LARGE'', PInt 2)] \<rparr>"

definition SMALL :: member where "SMALL = Member Size ''SMALL'' (PInt 1)"

definition PositiveSmallIntegerField :: field_class where
  "PositiveSmallIntegerField =
     \<lparr> fc_name = ''PositiveSmallIntegerField'',
       fc_default_error_messages =
         [(''null'', ''This field cannot be null.''), (''blank'', ''This field cannot be blank.'')] \<rparr>"

definition color_kwargs :: "bool \<Rightarrow> choices_arg option \<Rightarrow> kwargs" where
  "color_kwargs n c = \<lparr> kw_choices = c, kw_blank = False, kw_null = n \<rparr>"

text \<open>The field \<^verbatim>\<open>EnumField(Color, null=n)\<close>, as the constructor builds it.\<close>

definition color_field :: "bool \<Rightarrow> EnumField" where
  "color_field n =
     \<lparr> enum_class = Color, field_class = PositiveSmallIntegerField,
       default_error_messages =
         map_of (fc_default_error_messages PositiveSmallIntegerField)
           ++ map_of EnumField_default_error_messages,
       choices = Some [(PInt 1, RED), (PInt 2, GREEN), (PInt 3, BLUE)],
       null = n, field_repr = ''<EnumField: color>'' \<rparr>"

definition color_choice_field :: EnumChoiceField where
  "color_choice_field = \<lparr> cf_enum_class = Color, empty_values = [PyNone, Prim (PStr [])] \<rparr>"

section \<open>Properties\<close>

subsection \<open>Equality, lookup and formatting\<close>






lemma contains_prefix: "contains n (n @ b)"
proof (cases "n @ b")
  case Nil
  then show ?thesis by simp
next
  case (Cons c cs)
  have "take (length n) (n @ b) = n" by simp
  then have "contains n (c # cs)" by (simp add: Cons)
  then show ?thesis by (simp add: Cons)
qed

lemma contains_infix: "contains n (a @ n @ b)"
  by (induction a) (simp_all add: contains_prefix)

text \<open>The class raises nothing but the \<^verbatim>\<open>ValueError\<close> with its fixed message.\<close>

lemma enum_call_error:
  "enum_call E v = Inl e \<Longrightarrow> e = ValueError (py_repr v @ '' is not a valid '' @ enum_name E)"
  by (auto simp: enum_call_def Let_def split: pyval.splits if_splits option.splits)

lemma enum_call_error_contains:
  "contains ''is not a valid'' (py_repr v @ '' is not a valid '' @ enum_name E)"
  using contains_infix[of "''is not a valid''" "py_repr v @ '' ''" "'' '' @ enum_name E"]
  by simp

lemma format_invalid_value:
  "py_format ''%r is not a valid value for %r enum'' [a, b]
     = Some (a @ '' is not a valid value for '' @ b @ '' enum'')"
  by simp

lemma format_invalid_type:
  "py_format ''%r is configured for %r enum but received %r'' [a, b, c]
     = Some (a @ '' is configured for '' @ b @ '' enum but received '' @ c)"
  by simp

subsection \<open>What the constructor establishes\<close>

lemma init_fields:
  assumes "EnumField_init em ec fc kw r = Inr self"
  shows "default_error_messages self ''invalid_value'' = Some ''%r is not a valid value for %r enum''"
    and "default_error_messages self ''invalid_type'' = Some ''%r is configured for %r enum but received %r''"
    and "field_repr self = r" and "null self = kw_null kw" and "ec = EnumSubclass (enum_class self)"
  using assms
  by (auto simp: EnumField_init_def validate_enum_class_def validate_field_class_def
      EnumField_default_error_messages_def Let_def
      split: sum.splits if_splits pyclass.splits)

lemma color_field_init:
  "EnumField_init True (EnumSubclass Color) (FieldSubclass PositiveSmallIntegerField)
     (color_kwargs n None) ''<EnumField: color>'' = Inr (color_field n)"
  by (simp add: EnumField_init_def validate_enum_class_def validate_field_class_def
      prepare_choices_def color_field_def color_kwargs_def members_of_def Color_def
      choice_option_def RED_def GREEN_def BLUE_def)


subsection \<open>\<^verbatim>\<open>validate_value\<close>, case by case\<close>

lemma validate_value_None:
  "validate_value self PyNone
     = (if null self then Inr PyNone else Inl (InvalidEnumValueError [] None None))"
  by (simp add: validate_value_def)

lemma validate_value_member:
  "member_cls m = enum_class self \<Longrightarrow> validate_value self (Enum m) = Inr (Enum m)"
  by (simp add: validate_value_def)

lemma validate_value_other_member:
  assumes "EnumField_init em ec fc kw r = Inr self" and "member_cls m \<noteq> enum_class self"
  shows "validate_value self (Enum m) =
           Inl (InvalidEnumTypeError
                  (r @ '' is configured for '' @ repr_enum_class (enum_class self)
                     @ '' enum but received '' @ repr_enum_class (member_cls m))
                  (Some ''invalid_type'') (Some (Enum m)))"
  using assms(2) init_fields(2,3)[OF assms(1)]
  by (simp add: validate_value_def raise_invalid_type_def)

lemma validate_value_no_member:
  assumes "EnumField_init em ec fc kw r = Inr self"
    and "enum_call (enum_class self) (Prim p) = Inl e"
  shows "validate_value self (Prim p) =
           Inl (InvalidEnumValueError
                  (repr_prim p @ '' is not a valid value for '' @ repr_enum_class (enum_class self)
                     @ '' enum'')
                  (Some ''invalid_value'') (Some (Prim p)))"
proof -
  have e: "e = ValueError (py_repr (Prim p) @ '' is not a valid '' @ enum_name (enum_class self))"
    using assms(2) by (rule enum_call_error)
  show ?thesis
    using assms(2) e enum_call_error_contains[of "Prim p" "enum_class self"]
      init_fields(1)[OF assms(1)]
    by (simp add: validate_value_def raise_invalid_value_def)
qed



text \<open>
  Every failure of \<^verbatim>\<open>validate_value\<close> on a value other than \<^verbatim>\<open>None\<close> carries its
  code and the value.
\<close>

lemma validate_value_failure:
  assumes "EnumField_init em ec fc kw r = Inr self" and "validate_value self v = Inl e"
    and "v \<noteq> PyNone"
  shows "(\<exists>msg. e = InvalidEnumValueError msg (Some ''invalid_value'') (Some v)) \<or>
         (\<exists>msg. e = InvalidEnumTypeError msg (Some ''invalid_type'') (Some v))"
proof (cases v)
  case PyNone
  with assms(3) show ?thesis by simp
next
  case (Prim p)
  with assms(2) obtain e' where "enum_call (enum_class self) (Prim p) = Inl e'"
    by (auto simp: validate_value_def split: sum.splits)
  from validate_value_no_member[OF assms(1) this] assms(2) Prim show ?thesis by auto
next
  case (Enum m)
  with assms(2) have "member_cls m \<noteq> enum_class self"
    by (auto simp: validate_value_def split: if_splits)
  from validate_value_other_member[OF assms(1) this] assms(2) Enum show ?thesis by auto
qed

text \<open>A value that \<^verbatim>\<open>validate_value\<close> rejects is rejected by the class as well.\<close>

lemma validate_value_fails_enum_call:
  "validate_value self v = Inl e \<Longrightarrow> \<exists>e'. enum_call (enum_class self) v = Inl e'"
  by (cases v) (auto simp: validate_value_def enum_call_def Let_def split: sum.splits if_splits)




text \<open>
  Claim C6. On a constructed field, \<^verbatim>\<open>validate_value\<close> of a member of another
  enumeration raises \<^verbatim>\<open>InvalidEnumTypeError\<close> (not \<^verbatim>\<open>InvalidEnumValueError\<close>)
  with code \<^verbatim>\<open>invalid_type\<close>, the member as \<^verbatim>\<open>params['value']\<close> and a message
  naming the field, its enumeration and the member's enumeration; a member of the field's
  own enumeration is returned unchanged.
\<close>

theorem C6_other_enumeration:
  assumes "EnumField_init em ec fc kw r = Inr self"
  shows "(member_cls m \<noteq> enum_class self \<longrightarrow>
            validate_value self (Enum m) =
              Inl (InvalidEnumTypeError
                     (r @ '' is configured for '' @ repr_enum_class (enum_class self)
                        @ '' enum but received '' @ repr_enum_class (member_cls m))
                     (Some ''invalid_type'') (Some (Enum m)))) \<and>
         (member_cls m = enum_class self \<longrightarrow> validate_value self (Enum m) = Inr (Enum m))"
  using validate_value_other_member[OF assms] validate_value_member by blast

theorem C6_other_enumeration_witness:
  "EnumField_init True (EnumSubclass Color) (FieldSubclass PositiveSmallIntegerField)
     (color_kwargs False None) ''<EnumField: color>'' = Inr (color_field False) \<and>
   member_cls SMALL \<noteq> enum_class (color_field False) \<and>
   validate_value (color_field False) (Enum SMALL) =
     Inl (InvalidEnumTypeError
            (''<EnumField: color> is configured for <enum '' @ quoted ''Color''
               @ ''> enum but received <enum '' @ quoted ''Size'' @ ''>'')
            (Some ''invalid_type'') (Some (Enum SMALL))) \<and>
   member_cls RED = enum_class (color_field False) \<and>
   validate_value (color_field False) (Enum RED) = Inr (Enum RED)"
proof -
  have d: "member_cls SMALL \<noteq> enum_class (color_field False)"
    by (simp add: SMALL_def color_field_def Size_def Color_def)
  have s: "member_cls RED = enum_class (color_field False)"
    by (simp add: RED_def color_field_def)
  from C6_other_enumeration[OF color_field_init, of SMALL False]
       C6_other_enumeration[OF color_field_init, of RED False] d s color_field_init[of False]
  show ?thesis
    by (simp add: repr_enum_class_def SMALL_def color_field_def Size_def Color_def)
qed

text \<open>
  Claim C4. Every failed coercion should carry the offending value, the enumeration and a
  code, absence included. On the field over \<^verbatim>\<open>Color\<close> with \<^verbatim>\<open>null=False\<close>,
  \<^verbatim>\<open>validate_value(None)\<close> raises \<^verbatim>\<open>InvalidEnumValueError("")\<close>: the message is
  empty, and there is neither a code nor a \<^verbatim>\<open>params\<close> entry. (The two other
  \<^verbatim>\<open>raise\<close> statements do carry them: \<open>validate_value_failure\<close>,
  \<open>validate_value_no_member\<close>, \<open>validate_value_other_member\<close>.)
\<close>

theorem C4_absence_error_is_empty:
  "validate_value (color_field False) PyNone = Inl (InvalidEnumValueError [] None None)"
  by (simp add: validate_value_def color_field_def)

subsection \<open>Storage\<close>

text \<open>
  With the method name resolved to \<^verbatim>\<open>validate_value\<close>, the two storage entry points
  are that method.
\<close>

lemma from_db_value_renamed:
  "from_db_value (Some validate_value) self v = validate_value self v"
  by (simp add: from_db_value_def getattr_validate_enum_value_def)

lemma get_db_prep_value_renamed:
  "get_db_prep_value (Some validate_value) self v = validate_value self v"
  by (simp add: get_db_prep_value_def getattr_validate_enum_value_def split: sum.splits)

text \<open>
  Claim C1. On the field over \<^verbatim>\<open>Color\<close> with \<^verbatim>\<open>null=False\<close>,
  \<^verbatim>\<open>get_db_prep_value\<close> should return \<open>1\<close> for \<^verbatim>\<open>RED\<close> and \<open>2\<close> for
  \<open>2\<close>, and raise \<^verbatim>\<open>InvalidEnumValueError\<close> for \<open>9\<close> and for \<^verbatim>\<open>None\<close>. As
  the class has no method \<^verbatim>\<open>validate_enum_value\<close>, all four calls raise
  \<^verbatim>\<open>AttributeError\<close>; and were the name resolved to \<^verbatim>\<open>validate_value\<close>, the calls
  on \<^verbatim>\<open>RED\<close> and on \<open>2\<close> would return the members \<^verbatim>\<open>RED\<close> and
  \<^verbatim>\<open>GREEN\<close>, not their primitive values.
\<close>

theorem C1_get_db_prep_value_Color:
  "get_db_prep_value None (color_field False) (Enum RED) = Inl no_validate_enum_value \<and>
   get_db_prep_value None (color_field False) (Prim (PInt 2)) = Inl no_validate_enum_value \<and>
   get_db_prep_value None (color_field False) (Prim (PInt 9)) = Inl no_validate_enum_value \<and>
   get_db_prep_value None (color_field False) PyNone = Inl no_validate_enum_value \<and>
   get_db_prep_value (Some validate_value) (color_field False) (Enum RED) = Inr (Enum RED) \<and>
   get_db_prep_value (Some validate_value) (color_field False) (Prim (PInt 2)) = Inr (Enum GREEN)"
proof -
  have a: "get_db_prep_value None (color_field False) v = Inl no_validate_enum_value" for v
    by (simp add: get_db_prep_value_def getattr_validate_enum_value_def)
  have b: "get_db_prep_value (Some validate_value) (color_field False) (Enum RED) = Inr (Enum RED)"
    by (simp add: get_db_prep_value_def getattr_validate_enum_value_def validate_value_def
        RED_def color_field_def)
  have c: "get_db_prep_value (Some validate_value) (color_field False) (Prim (PInt 2))
             = Inr (Enum GREEN)"
    by (simp add: get_db_prep_value_def getattr_validate_enum_value_def validate_value_def
        enum_call_def GREEN_def color_field_def Color_def)
  from a b c show ?thesis by simp
qed

text \<open>
  Claim C2. \<^verbatim>\<open>from_db_value\<close> should decode a stored primitive through the coercion
  of \<^verbatim>\<open>validate_value\<close>. As the class has no method \<^verbatim>\<open>validate_enum_value\<close>, it
  raises \<^verbatim>\<open>AttributeError\<close> on every field and every value, the stored value \<open>2\<close>
  of \<^verbatim>\<open>GREEN\<close> included.
\<close>

theorem C2_from_db_value_fails:
  "from_db_value None self v = Inl no_validate_enum_value \<and>
   from_db_value None (color_field False) (Prim (PInt 2)) \<noteq> Inr (Enum GREEN)"
  by (simp add: from_db_value_def getattr_validate_enum_value_def)

text \<open>
  Claim C5. \<^verbatim>\<open>validate_value(None)\<close> returns \<^verbatim>\<open>None\<close> on a field with
  \<^verbatim>\<open>null=True\<close> and raises \<^verbatim>\<open>InvalidEnumValueError\<close> on a field with
  \<^verbatim>\<open>null=False\<close>. On the field with \<^verbatim>\<open>null=True\<close>,
  \<^verbatim>\<open>get_db_prep_value(None)\<close> and \<^verbatim>\<open>from_db_value(None)\<close> should return
  \<^verbatim>\<open>None\<close>; as the class has no method \<^verbatim>\<open>validate_enum_value\<close>, both raise
  \<^verbatim>\<open>AttributeError\<close>.
\<close>

theorem C5_absence:
  "validate_value (color_field True) PyNone = Inr PyNone \<and>
   validate_value (color_field False) PyNone = Inl (InvalidEnumValueError [] None None) \<and>
   get_db_prep_value None (color_field True) PyNone = Inl no_validate_enum_value \<and>
   from_db_value None (color_field True) PyNone = Inl no_validate_enum_value"
  by (simp add: validate_value_def color_field_def get_db_prep_value_def from_db_value_def
      getattr_validate_enum_value_def)

subsection \<open>The form field\<close>

text \<open>
  Claim C3. \<^verbatim>\<open>prepare_value\<close> followed by \<^verbatim>\<open>EnumChoiceField.to_python\<close> should
  return the member it started from. \<^verbatim>\<open>prepare_value\<close> turns the member into its
  primitive value; whatever primitive \<open>p\<close> the base class's \<^verbatim>\<open>to_python\<close> makes of
  it (its text), \<^verbatim>\<open>EnumChoiceField.to_python\<close> returns \<^verbatim>\<open>None\<close> when \<open>p\<close> is
  an empty value and raises \<^verbatim>\<open>NameError\<close> otherwise: it never returns the member.
\<close>

theorem C3_form_round_trip_fails:
  "prepare_value (Enum m) = Prim (member_value m) \<and>
   EnumChoiceField_to_python (\<lambda>v. Inr (Prim p)) self (prepare_value (Enum m))
     = (if list_ex (py_eq_val (Prim p)) (empty_values self) then Inr PyNone
        else Inl uuid_not_defined) \<and>
   EnumChoiceField_to_python (\<lambda>v. Inr (Prim p)) self (prepare_value (Enum m)) \<noteq> Inr (Enum m)"
  by (simp add: prepare_value_def EnumChoiceField_to_python_def)

subsection \<open>The choice list\<close>

lemma map_enum_class_fails:
  "v \<in> set vs \<Longrightarrow> enum_call E v = Inl e \<Longrightarrow> \<exists>msg. map_enum_class E vs = Inl (ValueError msg)"
proof (induction vs)
  case Nil
  then show ?case by simp
next
  case (Cons a vs)
  show ?case
  proof (cases "enum_call E a")
    case (Inl e')
    then show ?thesis using enum_call_error[OF Inl] by simp
  next
    case (Inr m)
    with Cons.prems have "v \<in> set vs" by auto
    from Cons.IH[OF this Cons.prems(2)] Inr show ?thesis by auto
  qed
qed

lemma map_enum_class_order:
  "map_enum_class E vs = Inr ms \<Longrightarrow> map Inr ms = map (enum_call E) vs"
  by (induction vs arbitrary: ms) (auto split: sum.splits)

lemma map_enum_class_succeeds:
  "list_all (\<lambda>v. isl (enum_call E v) = False) vs \<Longrightarrow> \<exists>ms. map_enum_class E vs = Inr ms"
  by (induction vs) (auto split: sum.splits)

text \<open>
  Claim C8, as amended. When the \<^verbatim>\<open>choices\<close> argument is a list, a tuple or a set
  and one of its items is not a value of the enumeration (the class rejects it), the
  constructor raises \<^verbatim>\<open>ValueError\<close>, the exception of its two other configuration
  checks, and returns no field.
\<close>

theorem C8_invalid_choice:
  assumes "kw_choices kw = Some c" and "is_list_tuple_set c"
    and "v \<in> set (items c)" and "enum_call E v = Inl e"
  shows "\<exists>msg. EnumField_init True (EnumSubclass E) fc kw r = Inl (ValueError msg)"
proof (cases "validate_field_class fc")
  case (Inl e')
  then show ?thesis
    by (auto simp: EnumField_init_def validate_enum_class_def validate_field_class_def
        split: pyclass.splits)
next
  case (Inr F)
  from map_enum_class_fails[OF assms(3,4)] obtain msg
    where "map_enum_class E (items c) = Inl (ValueError msg)" by blast
  with Inr assms(1,2) show ?thesis
    by (simp add: EnumField_init_def validate_enum_class_def prepare_choices_def)
qed

theorem C8_invalid_choice_witness:
  "kw_choices (color_kwargs False (Some (PyList [Enum RED, Prim (PInt 9)])))
     = Some (PyList [Enum RED, Prim (PInt 9)]) \<and>
   is_list_tuple_set (PyList [Enum RED, Prim (PInt 9)]) \<and>
   Prim (PInt 9) \<in> set (items (PyList [Enum RED, Prim (PInt 9)])) \<and>
   enum_call Color (Prim (PInt 9)) = Inl (ValueError ''9 is not a valid Color'') \<and>
   (\<exists>msg. EnumField_init True (EnumSubclass Color) (FieldSubclass PositiveSmallIntegerField)
      (color_kwargs False (Some (PyList [Enum RED, Prim (PInt 9)]))) ''<EnumField: color>''
        = Inl (ValueError msg))"
proof -
  have k: "kw_choices (color_kwargs False (Some (PyList [Enum RED, Prim (PInt 9)])))
             = Some (PyList [Enum RED, Prim (PInt 9)])"
    by (simp add: color_kwargs_def)
  have l: "is_list_tuple_set (PyList [Enum RED, Prim (PInt 9)])" by simp
  have i: "Prim (PInt 9) \<in> set (items (PyList [Enum RED, Prim (PInt 9)]))" by simp
  have e: "enum_call Color (Prim (PInt 9)) = Inl (ValueError ''9 is not a valid Color'')"
    by code_simp
  from C8_invalid_choice[OF k l i e] k l i e show ?thesis by blast
qed

text \<open>
  The claim as first stated fails: \<open>9\<close> is no value of \<^verbatim>\<open>Color\<close>, and with the
  items given in another kind of iterable the constructor returns a field.
\<close>

theorem C8_unvalidated_choices:
  "enum_call Color (Prim (PInt 9)) = Inl (ValueError ''9 is not a valid Color'') \<and>
   EnumField_init True (EnumSubclass Color) (FieldSubclass PositiveSmallIntegerField)
     (color_kwargs False (Some (PyOther [Prim (PInt 9)]))) ''<EnumField: color>''
     = Inr ((color_field False)\<lparr>choices := None\<rparr>)"
proof -
  have e: "enum_call Color (Prim (PInt 9)) = Inl (ValueError ''9 is not a valid Color'')"
    by code_simp
  have f: "EnumField_init True (EnumSubclass Color) (FieldSubclass PositiveSmallIntegerField)
     (color_kwargs False (Some (PyOther [Prim (PInt 9)]))) ''<EnumField: color>''
     = Inr ((color_field False)\<lparr>choices := None\<rparr>)"
    by (simp add: EnumField_init_def validate_enum_class_def validate_field_class_def
      prepare_choices_def color_field_def color_kwargs_def)
  from e f show ?thesis by simp
qed

text \<open>
  Claim C9. Without a \<^verbatim>\<open>choices\<close> argument, \<^verbatim>\<open>prepare_choices\<close> returns the
  pairs (value, member) of all members of the definition, in declaration order. With a
  \<^verbatim>\<open>choices\<close> argument, the choice list it returns is in the order of the items given:
  its \<open>i\<close>-th pair holds the member the class makes of the \<open>i\<close>-th item, next to that
  member's value; and it does return a choice list when the argument is a list, a tuple or
  a set of values of the enumeration.
\<close>

theorem C9_choice_list_order:
  "prepare_choices E None blank = Inr (Some (map (\<lambda>m. (member_value m, m)) (members_of E))) \<and>
   map (\<lambda>m. (member_name m, member_value m)) (members_of E) = enum_members E \<and>
   (\<forall>c xs. prepare_choices E (Some c) blank = Inr (Some xs) \<longrightarrow>
      map (\<lambda>x. Inr (snd x)) xs = map (enum_call E) (items c) \<and>
      map fst xs = map (\<lambda>x. member_value (snd x)) xs) \<and>
   (\<forall>c. is_list_tuple_set c \<and> list_all (\<lambda>v. isl (enum_call E v) = False) (items c) \<longrightarrow>
      (\<exists>xs. prepare_choices E (Some c) blank = Inr (Some xs)))"
proof (intro conjI allI impI)
  show "prepare_choices E None blank = Inr (Some (map (\<lambda>m. (member_value m, m)) (members_of E)))"
    by (simp add: prepare_choices_def choice_option_def)
  show "map (\<lambda>m. (member_name m, member_value m)) (members_of E) = enum_members E"
    by (simp add: members_of_def comp_def case_prod_beta)
next
  fix c xs assume p: "prepare_choices E (Some c) blank = Inr (Some xs)"
  then obtain ms where ms: "map_enum_class E (items c) = Inr ms" and xs: "xs = map choice_option ms"
    by (auto simp: prepare_choices_def split: if_splits sum.splits)
  from map_enum_class_order[OF ms] show "map (\<lambda>x. Inr (snd x)) xs = map (enum_call E) (items c)"
    by (simp add: xs choice_option_def comp_def)
  show "map fst xs = map (\<lambda>x. member_value (snd x)) xs"
    by (simp add: xs choice_option_def comp_def)
next
  fix c assume "is_list_tuple_set c \<and> list_all (\<lambda>v. isl (enum_call E v) = False) (items c)"
  then show "\<exists>xs. prepare_choices E (Some c) blank = Inr (Some xs)"
    using map_enum_class_succeeds[of E "items c"]
    by (auto simp: prepare_choices_def)
qed

theorem C9_choice_list_order_witness:
  "prepare_choices Color None False = Inr (Some [(PInt 1, RED), (PInt 2, GREEN), (PInt 3, BLUE)]) \<and>
   prepare_choices Color (Some (PyTuple [Enum BLUE, Prim (PInt 1)])) False
     = Inr (Some [(PInt 3, BLUE), (PInt 1, RED)]) \<and>
   map (\<lambda>x. Inr (snd x)) [(PInt 3, BLUE), (PInt 1, RED)]
     = map (enum_call Color) (items (PyTuple [Enum BLUE, Prim (PInt 1)]))"
proof -
  have p: "prepare_choices Color (Some (PyTuple [Enum BLUE, Prim (PInt 1)])) False
     = Inr (Some [(PInt 3, BLUE), (PInt 1, RED)])"
    by (simp add: prepare_choices_def enum_call_def Color_def BLUE_def RED_def choice_option_def)
  note t = C9_choice_list_order[of Color False]
  from t have a: "prepare_choices Color None False
      = Inr (Some [(PInt 1, RED), (PInt 2, GREEN), (PInt 3, BLUE)])"
    by (simp add: members_of_def Color_def RED_def GREEN_def BLUE_def)
  from t p have b: "map (\<lambda>x. Inr (snd x)) [(PInt 3, BLUE), (PInt 1, RED)]
     = map (enum_call Color) (items (PyTuple [Enum BLUE, Prim (PInt 1)]))"
    by blast
  from a p b show ?thesis by simp
qed

text \<open>
  Claim C10. When the \<^verbatim>\<open>choices\<close> argument is given and is neither a list, a tuple
  nor a set, \<^verbatim>\<open>prepare_choices\<close> returns \<^verbatim>\<open>None\<close> whatever the items are, and the
  constructor (given an enumeration and a field class) raises nothing: it returns the field
  with \<^verbatim>\<open>choices=None\<close> handed to the base constructor, so with no restriction.
\<close>

theorem C10_choices_dropped:
  "prepare_choices E (Some (PyOther xs)) blank = Inr None \<and>
   EnumField_init True (EnumSubclass E) (FieldSubclass F) (kw\<lparr>kw_choices := Some (PyOther xs)\<rparr>) r
     = Inr \<lparr> enum_class = E, field_class = F,
             default_error_messages =
               map_of (fc_default_error_messages F) ++ map_of EnumField_default_error_messages,
             choices = None, null = kw_null kw, field_repr = r \<rparr>"
  by (simp add: prepare_choices_def EnumField_init_def validate_enum_class_def
      validate_field_class_def)

theorem C10_choices_dropped_witness:
  "prepare_choices Color (Some (PyOther [Prim (PInt 9)])) False = Inr None \<and>
   EnumField_init True (EnumSubclass Color) (FieldSubclass PositiveSmallIntegerField)
     (color_kwargs False (Some (PyOther [Prim (PInt 9)]))) ''<EnumField: color>''
     = Inr ((color_field False)\<lparr>choices := None\<rparr>)"
  using C10_choices_dropped[of Color "[Prim (PInt 9)]" False PositiveSmallIntegerField
      "color_kwargs False None" "''<EnumField: color>''"]
  by (simp add: color_kwargs_def color_field_def)

end
